theory Spec2Isabelle
  imports Complex_Main
begin

section \<open>Bear-sighting map: the state behind \<open>src/App.js\<close>\<close>

text \<open>
  \<open>App.js\<close> holds three React components. \<open>App\<close> owns the marker list, the selected
  marker and the reference to the Google map (\<open>mapRef\<close>); \<open>Locate\<close> and \<open>Search\<close> receive
  \<open>panTo\<close> as a prop. Every event handler is modelled as a function from the state before
  the event to the state after it. What the outside world supplies (the clicked coordinate,
  the clock reading of \<open>new Date()\<close>, the answer of the geocoder, the answer of the position
  sensor) is an argument of the handler. A JavaScript exception is the \<open>Inl\<close> of a sum.
\<close>

subsection \<open>Data\<close>

text \<open>JavaScript numbers. Coordinates are only stored and passed on, never computed with.\<close>

type_synonym number = real

text \<open>The object literal \<open>{ lat, lng }\<close>.\<close>

record LatLngLiteral =
  lat :: number
  lng :: number

text \<open>
  A marker is \<open>{ lat, lng, time }\<close> (lines 68-72); \<open>time\<close> is a \<open>Date\<close>, kept as its
  milliseconds since the epoch.
\<close>

record marker = LatLngLiteral +
  time :: int

text \<open>The click event of the map: \<open>e.latLng.lat()\<close>, \<open>e.latLng.lng()\<close>.\<close>

record mapMouseEvent =
  latLng :: LatLngLiteral

text \<open>The position handed to the success callback of \<open>getCurrentPosition\<close>.\<close>

record geolocationCoordinates =
  latitude :: number
  longitude :: number

record geolocationPosition =
  coords :: geolocationCoordinates

datatype position_error = PERMISSION_DENIED | POSITION_UNAVAILABLE | TIMEOUT

text \<open>One entry of the geocoder's answer; \<open>getLatLng\<close> reads its location.\<close>

record geocoderResult =
  formatted_address :: string
  location :: LatLngLiteral

text \<open>One autocomplete prediction (lines 227-231).\<close>

record suggestion =
  place_id :: string
  description :: string

text \<open>
  What can be thrown: the \<open>TypeError\<close> of a property read on \<open>undefined\<close>, and the
  rejection of the geocoder with its status string.
\<close>

datatype error = TypeError | GeocoderStatus string

text \<open>What \<open>console.log\<close> is called with in the handlers (lines 170, 208, 211).\<close>

datatype log_entry =
  LogLatLng number number
| LogPosition geolocationPosition
| LogString string

subsection \<open>The map view\<close>

text \<open>
  Modelled from the spec: the Google map instance is an external collaborator that
  "exposes pan(coordinate) and setZoom(level) on the view handle" (section 6). The view is a
  mock that keeps the last pan target, the last zoom level, and the calls it received in
  order.
\<close>

datatype map_call = PanTo LatLngLiteral | SetZoom number

record map_view =
  center :: LatLngLiteral
  zoom :: number
  calls :: "map_call list"

definition map_panTo :: "LatLngLiteral \<Rightarrow> map_view \<Rightarrow> map_view" where
  "map_panTo c m = m\<lparr>center := c, calls := calls m @ [PanTo c]\<rparr>"

definition map_setZoom :: "number \<Rightarrow> map_view \<Rightarrow> map_view" where
  "map_setZoom z m = m\<lparr>zoom := z, calls := calls m @ [SetZoom z]\<rparr>"

subsection \<open>State\<close>

text \<open>
  \<open>markers\<close>, \<open>selected\<close> (lines 57, 59) and \<open>mapRef.current\<close> (line 77, \<open>None\<close> while it
  is \<open>undefined\<close>) belong to \<open>App\<close>; \<open>ready\<close>, \<open>input_value\<close> (the hook's \<open>value\<close>),
  \<open>status\<close> and \<open>data\<close> are what \<open>usePlacesAutocomplete\<close> returns to \<open>Search\<close>
  (lines 182-188); \<open>fetches\<close> lists the texts for which the hook has asked the autocomplete
  service for predictions; \<open>console\<close> is the browser console.
\<close>

record world =
  markers :: "marker list"
  selected :: "marker option"
  mapRef :: "map_view option"
  ready :: bool
  input_value :: string
  status :: string
  data :: "suggestion list"
  fetches :: "string list"
  console :: "log_entry list"

definition init_world :: world where
  "init_world =
     \<lparr>markers = [], selected = None, mapRef = None, ready = True, input_value = [],
      status = [], data = [], fetches = [], console = []\<rparr>"

definition console_log :: "log_entry \<Rightarrow> world \<Rightarrow> world" where
  "console_log x w = w\<lparr>console := console w @ [x]\<rparr>"

subsection \<open>The library calls of \<open>Search\<close>\<close>

text \<open>
  Modelled from the spec: \<open>setValue\<close> of \<open>usePlacesAutocomplete\<close> is library code. It
  "updates queryText and triggers an asynchronous suggestion fetch" (section 4.3); its
  second argument, which \<open>onSelect\<close> passes as \<open>false\<close>, switches the fetch off ("without
  re-triggering a suggestion fetch").
\<close>

definition setValue :: "string \<Rightarrow> bool \<Rightarrow> world \<Rightarrow> world" where
  "setValue val shouldFetchData w =
     (let w1 = w\<lparr>input_value := val\<rparr>
      in if shouldFetchData then w1\<lparr>fetches := fetches w1 @ [val]\<rparr> else w1)"

text \<open>
  Modelled from the spec: \<open>clearSuggestions\<close> of \<open>usePlacesAutocomplete\<close> is library code;
  it "clears suggestions" (section 4.3): the list becomes empty and the status is reset.
\<close>

definition clearSuggestions :: "world \<Rightarrow> world" where
  "clearSuggestions w = w\<lparr>status := [], data := []\<rparr>"

text \<open>\<open>results[0]\<close>: \<open>undefined\<close> on an empty array.\<close>

definition first_result :: "geocoderResult list \<Rightarrow> geocoderResult option" where
  "first_result results = (case results of [] \<Rightarrow> None | r # _ \<Rightarrow> Some r)"

text \<open>
  Modelled from the spec: \<open>getLatLng\<close> of \<open>use-places-autocomplete\<close> is library code. It
  yields the coordinate of the result it is given ("first element used", section 6); on
  \<open>undefined\<close>, the first element of an empty result set, reading the coordinate fails and
  the promise rejects ("On failure (service error, empty result set)", section 4.3).
\<close>

definition getLatLng :: "geocoderResult option \<Rightarrow> error + LatLngLiteral" where
  "getLatLng result =
     (case result of None \<Rightarrow> Inl TypeError | Some r \<Rightarrow> Inr (location r))"

subsection \<open>\<open>App\<close>\<close>

text \<open>
  Lines 63-74. \<open>now\<close> is what \<open>new Date()\<close> reads from the clock when the click is
  handled.
\<close>

definition onMapClick :: "mapMouseEvent \<Rightarrow> int \<Rightarrow> world \<Rightarrow> world" where
  "onMapClick e now w =
     w\<lparr>markers := markers w @ [\<lparr>lat = lat (latLng e), lng = lng (latLng e), time = now\<rparr>]\<rparr>"

text \<open>A sequence of map clicks, each with its clock reading, handled in order.\<close>

fun onMapClicks :: "(mapMouseEvent \<times> int) list \<Rightarrow> world \<Rightarrow> world" where
  "onMapClicks [] w = w"
| "onMapClicks ((e, now) # es) w = onMapClicks es (onMapClick e now w)"

text \<open>Lines 80-82.\<close>

definition onMapLoad :: "map_view \<Rightarrow> world \<Rightarrow> world" where
  "onMapLoad m w = w\<lparr>mapRef := Some m\<rparr>"

text \<open>
  Lines 85-90. \<open>mapRef.current.panTo\<close> on an \<open>undefined\<close> \<open>mapRef.current\<close> throws a
  \<open>TypeError\<close> before anything has happened; the function has no guard and no \<open>try\<close>.
\<close>

definition panTo :: "LatLngLiteral \<Rightarrow> world \<Rightarrow> error + world" where
  "panTo c w =
     (case mapRef w of
        None \<Rightarrow> Inl TypeError
      | Some m \<Rightarrow>
          Inr (w\<lparr>mapRef := Some (map_setZoom 14 (map_panTo \<lparr>lat = lat c, lng = lng c\<rparr> m))\<rparr>))"

text \<open>Two \<open>panTo\<close> calls in a row; the second runs only if the first did not throw.\<close>

definition panTo_twice :: "LatLngLiteral \<Rightarrow> world \<Rightarrow> error + world" where
  "panTo_twice c w = (case panTo c w of Inl e \<Rightarrow> Inl e | Inr w1 \<Rightarrow> panTo c w1)"

text \<open>Lines 129-131: the \<open>onClick\<close> of the \<open>Marker\<close> rendered for \<open>m\<close>.\<close>

definition Marker_onClick :: "marker \<Rightarrow> world \<Rightarrow> world" where
  "Marker_onClick m w = w\<lparr>selected := Some m\<rparr>"

text \<open>Lines 138-141.\<close>

definition InfoWindow_onCloseClick :: "world \<Rightarrow> world" where
  "InfoWindow_onCloseClick w = w\<lparr>selected := None\<rparr>"

text \<open>The pan target and zoom level of the attached view, if there is one.\<close>

definition view_state :: "world \<Rightarrow> (LatLngLiteral \<times> number) option" where
  "view_state w = (case mapRef w of None \<Rightarrow> None | Some m \<Rightarrow> Some (center m, zoom m))"

definition result_view :: "error + world \<Rightarrow> error + (LatLngLiteral \<times> number) option" where
  "result_view r = (case r of Inl e \<Rightarrow> Inl e | Inr w \<Rightarrow> Inr (view_state w))"

subsection \<open>\<open>Locate\<close>\<close>

text \<open>
  Lines 161-174. \<open>panTo_prop\<close> is the \<open>panTo\<close> prop; \<open>outcome\<close> is what the position sensor
  answers: \<open>Inr\<close> runs the success callback, \<open>Inl\<close> the error callback \<open>() => null\<close>. An
  exception of the prop leaves the success callback uncaught.
\<close>

definition Locate_onClick ::
  "(LatLngLiteral \<Rightarrow> world \<Rightarrow> error + world) \<Rightarrow> position_error + geolocationPosition \<Rightarrow>
   world \<Rightarrow> error + world" where
  "Locate_onClick panTo_prop outcome w =
     (case outcome of
        Inr position \<Rightarrow>
          (case panTo_prop \<lparr>lat = latitude (coords position),
                            lng = longitude (coords position)\<rparr> w of
             Inl e \<Rightarrow> Inl e
           | Inr w1 \<Rightarrow> Inr (console_log (LogPosition position) w1))
      | Inl err \<Rightarrow> Inr w)"

subsection \<open>\<open>Search\<close>\<close>

text \<open>
  Lines 199-213. \<open>geocode\<close> is what the promise of \<open>getGeocode({ address })\<close> settles to.
  \<open>setValue\<close> and \<open>clearSuggestions\<close> run before the \<open>try\<close>; the \<open>catch\<close> covers
  \<open>getGeocode\<close>, \<open>getLatLng\<close> and the call of the \<open>panTo\<close> prop.
\<close>

definition Search_onSelect ::
  "(LatLngLiteral \<Rightarrow> world \<Rightarrow> error + world) \<Rightarrow> error + geocoderResult list \<Rightarrow>
   string \<Rightarrow> world \<Rightarrow> world" where
  "Search_onSelect panTo_prop geocode address w =
     (let w1 = setValue address False w;
          w2 = clearSuggestions w1
      in case geocode of
           Inl e \<Rightarrow> console_log (LogString ''Error!'') w2
         | Inr results \<Rightarrow>
             (case getLatLng (first_result results) of
                Inl e \<Rightarrow> console_log (LogString ''Error!'') w2
              | Inr c \<Rightarrow>
                  (let w3 = console_log (LogLatLng (lat c) (lng c)) w2
                   in case panTo_prop \<lparr>lat = lat c, lng = lng c\<rparr> w3 of
                        Inl e \<Rightarrow> console_log (LogString ''Error!'') w3
                      | Inr w4 \<Rightarrow> w4)))"

section \<open>Properties\<close>

subsection \<open>Marker store\<close>

lemma markers_onMapClicks:
  "markers (onMapClicks es w) =
     markers w @ map (\<lambda>(e, now). \<lparr>lat = lat (latLng e), lng = lng (latLng e), time = now\<rparr>) es"
  by (induction es arbitrary: w) (auto simp: onMapClick_def)

text \<open>
  C1. Append-only marker list: one map click makes the marker list exactly one longer and
  leaves the markers already stored as they were (coordinate and timestamp); after any
  sequence of clicks the list is longer by the number of clicks and still starts with the
  markers it had.
\<close>

theorem C1_append_only:
  "length (markers (onMapClick e now w)) = length (markers w) + 1
   \<and> take (length (markers w)) (markers (onMapClick e now w)) = markers w
   \<and> length (markers (onMapClicks es w)) = length (markers w) + length es
   \<and> take (length (markers w)) (markers (onMapClicks es w)) = markers w"
  by (simp add: markers_onMapClicks) (simp add: onMapClick_def)

text \<open>
  C3. Selection exclusivity: after the click on marker \<open>m\<close> and then the click on marker
  \<open>n\<close>, the selection is \<open>n\<close> (whether or not \<open>n\<close> differs from \<open>m\<close>; the selection is a
  single optional marker, so at most one is selected); closing the info window leaves no
  selection, from any state; closing it twice is the same as closing it once.
\<close>

theorem C3_selection_exclusive:
  "selected (Marker_onClick n (Marker_onClick m w)) = Some n
   \<and> selected (InfoWindow_onCloseClick w) = None
   \<and> InfoWindow_onCloseClick (InfoWindow_onCloseClick w) = InfoWindow_onCloseClick w"
  by (simp add: Marker_onClick_def InfoWindow_onCloseClick_def)

text \<open>
  C10. Frame property: a map click leaves the selection as it was; a marker click and the
  closing of the info window leave the marker list as it was. Each of the three handlers
  changes its own field of the state and nothing else.
\<close>

theorem C10_frame:
  "selected (onMapClick e now w) = selected w
   \<and> markers (Marker_onClick m w) = markers w
   \<and> markers (InfoWindow_onCloseClick w) = markers w
   \<and> onMapClick e now w = w\<lparr>markers := markers (onMapClick e now w)\<rparr>
   \<and> Marker_onClick m w = w\<lparr>selected := selected (Marker_onClick m w)\<rparr>
   \<and> InfoWindow_onCloseClick w = w\<lparr>selected := selected (InfoWindow_onCloseClick w)\<rparr>"
  by (simp add: onMapClick_def Marker_onClick_def InfoWindow_onCloseClick_def)

subsection \<open>Marker identity\<close>

text \<open>
  The React key of a marker is \<open>marker.time.toISOString()\<close> (line 119), a function of the
  \<open>time\<close> field alone: two markers with the same \<open>time\<close> have the same key.
\<close>

lemma times_onMapClicks:
  "map time (markers (onMapClicks es w)) = map time (markers w) @ map snd es"
  by (simp add: markers_onMapClicks split_def comp_def)

text \<open>
  C8, as stated, fails: two map clicks handled at the same clock reading store two markers
  with the same \<open>time\<close>, so the identities of the list reached from the empty one are not
  pairwise distinct.
\<close>

theorem C8_same_instant_clicks:
  "\<not> distinct (map time (markers (onMapClicks
       [(\<lparr>latLng = \<lparr>lat = 37.77, lng = - 122.41\<rparr>\<rparr>, 1700000000000),
        (\<lparr>latLng = \<lparr>lat = 37.78, lng = - 122.42\<rparr>\<rparr>, 1700000000000)] init_world)))"
  by (simp add: onMapClick_def init_world_def)

text \<open>
  C8, amended. Marker identity: when the clock readings of the clicks are pairwise distinct
  and differ from the timestamps already stored (themselves pairwise distinct), the
  \<open>time\<close> identities of the resulting marker list are pairwise distinct. The code takes
  the identity from the clock and has nothing that makes it unique.
\<close>

theorem C8_distinct_clock_distinct_keys:
  "distinct (map time (markers w) @ map snd es) \<Longrightarrow>
   distinct (map time (markers (onMapClicks es w)))"
  by (simp only: times_onMapClicks)

theorem C8_distinct_clock_distinct_keys_witness:
  "distinct (map time (markers init_world) @ map snd
       [(\<lparr>latLng = \<lparr>lat = 37.77, lng = - 122.41\<rparr>\<rparr>, 1700000000000),
        (\<lparr>latLng = \<lparr>lat = 37.78, lng = - 122.42\<rparr>\<rparr>, 1700000000001)])
   \<and> distinct (map time (markers (onMapClicks
       [(\<lparr>latLng = \<lparr>lat = 37.77, lng = - 122.41\<rparr>\<rparr>, 1700000000000),
        (\<lparr>latLng = \<lparr>lat = 37.78, lng = - 122.42\<rparr>\<rparr>, 1700000000001)] init_world)))"
proof -
  have h: "distinct (map time (markers init_world) @ map snd
       [(\<lparr>latLng = \<lparr>lat = 37.77, lng = - 122.41\<rparr>\<rparr>, 1700000000000::int),
        (\<lparr>latLng = \<lparr>lat = 37.78, lng = - 122.42\<rparr>\<rparr>, 1700000000001)])"
    by (simp add: init_world_def)
  show ?thesis
    by (rule conjI [OF h C8_distinct_clock_distinct_keys [OF h]])
qed

subsection \<open>Camera\<close>

lemma LatLngLiteral_eta: "\<lparr>lat = lat c, lng = lng c\<rparr> = (c::LatLngLiteral)"
  by simp

lemma panTo_attached:
  "mapRef w = Some m \<Longrightarrow>
   panTo c w =
     Inr (w\<lparr>mapRef := Some (m\<lparr>center := c, zoom := 14,
                                 calls := calls m @ [PanTo c, SetZoom 14]\<rparr>)\<rparr>)"
  by (simp add: panTo_def map_panTo_def map_setZoom_def)

lemma panTo_detached: "mapRef w = None \<Longrightarrow> panTo c w = Inl TypeError"
  by (simp add: panTo_def)

text \<open>
  C7. \<open>panTo\<close> on an attached view: the view receives a pan to the coordinate and then
  \<open>setZoom(14)\<close>, in that order, and ends up centred on the coordinate at zoom 14. The
  call returns nothing but the state, in which only the view has changed. The zoom level
  is the constant 14 of line 89; \<open>panTo\<close> has no zoom argument.
\<close>

theorem C7_panTo_pan_then_zoom:
  "mapRef w = Some m \<Longrightarrow>
   panTo c w =
     Inr (w\<lparr>mapRef := Some (m\<lparr>center := c, zoom := 14,
                                 calls := calls m @ [PanTo c, SetZoom 14]\<rparr>)\<rparr>)"
  by (rule panTo_attached)

theorem C7_panTo_pan_then_zoom_witness:
  "mapRef (onMapLoad \<lparr>center = \<lparr>lat = 37.7749, lng = - 122.4194\<rparr>, zoom = 8, calls = []\<rparr>
             init_world)
     = Some \<lparr>center = \<lparr>lat = 37.7749, lng = - 122.4194\<rparr>, zoom = 8, calls = []\<rparr>
   \<and> panTo \<lparr>lat = 40, lng = - 75\<rparr>
        (onMapLoad \<lparr>center = \<lparr>lat = 37.7749, lng = - 122.4194\<rparr>, zoom = 8, calls = []\<rparr>
           init_world)
     = Inr \<lparr>markers = [], selected = None,
            mapRef = Some \<lparr>center = \<lparr>lat = 40, lng = - 75\<rparr>, zoom = 14,
                            calls = [PanTo \<lparr>lat = 40, lng = - 75\<rparr>, SetZoom 14]\<rparr>,
            ready = True, input_value = [], status = [], data = [], fetches = [],
            console = []\<rparr>"
proof -
  have h: "mapRef (onMapLoad \<lparr>center = \<lparr>lat = 37.7749, lng = - 122.4194\<rparr>, zoom = 8,
                              calls = []\<rparr> init_world)
     = Some \<lparr>center = \<lparr>lat = 37.7749, lng = - 122.4194\<rparr>, zoom = 8, calls = []\<rparr>"
    by (simp add: onMapLoad_def)
  show ?thesis
    using h C7_panTo_pan_then_zoom [OF h, of "\<lparr>lat = 40, lng = - 75\<rparr>"]
    by (simp add: onMapLoad_def init_world_def)
qed

text \<open>
  C6. Camera idempotence: two \<open>panTo\<close> calls in a row with the same coordinate leave the
  view with the same pan target and the same zoom level as one call (and, on a view that
  is not attached, both throw the same \<open>TypeError\<close>). The zoom level is always 14.
\<close>

theorem C6_panTo_idempotent:
  "result_view (panTo_twice c w) = result_view (panTo c w)"
  by (cases "mapRef w")
     (simp_all add: result_view_def panTo_twice_def view_state_def panTo_attached
        panTo_detached)

lemma result_view_panTo_example:
  "result_view (panTo \<lparr>lat = 40, lng = - 75\<rparr>
      (onMapLoad \<lparr>center = \<lparr>lat = 37.7749, lng = - 122.4194\<rparr>, zoom = 8, calls = []\<rparr>
         init_world))
   = Inr (Some (\<lparr>lat = 40, lng = - 75\<rparr>, 14))"
  by (simp add: result_view_def view_state_def panTo_def onMapLoad_def map_panTo_def
      map_setZoom_def)

text \<open>
  C9. Camera attach precondition: while \<open>mapRef.current\<close> is still \<open>undefined\<close>, \<open>panTo\<close>
  throws a \<open>TypeError\<close> to its caller (it neither guards nor catches); once \<open>onMapLoad\<close>
  has stored the view, and in any state with a stored view, \<open>panTo\<close> returns normally.
\<close>

theorem C9_panTo_needs_attach:
  "(mapRef w = None \<longrightarrow> panTo c w = Inl TypeError)
   \<and> (\<exists>w'. panTo c (onMapLoad m w) = Inr w')
   \<and> (mapRef w \<noteq> None \<longrightarrow> (\<exists>w'. panTo c w = Inr w'))"
  by (auto simp: panTo_def onMapLoad_def)

theorem C9_panTo_needs_attach_witness:
  "mapRef init_world = None
   \<and> panTo \<lparr>lat = 40, lng = - 75\<rparr> init_world = Inl TypeError
   \<and> (\<exists>w'. panTo \<lparr>lat = 40, lng = - 75\<rparr>
              (onMapLoad \<lparr>center = \<lparr>lat = 37.7749, lng = - 122.4194\<rparr>, zoom = 8,
                          calls = []\<rparr> init_world)
            = Inr w')"
proof -
  have h: "mapRef init_world = None"
    by (simp add: init_world_def)
  show ?thesis
    using h C9_panTo_needs_attach [of init_world "\<lparr>lat = 40, lng = - 75\<rparr>"
        "\<lparr>center = \<lparr>lat = 37.7749, lng = - 122.4194\<rparr>, zoom = 8, calls = []\<rparr>"]
    by simp
qed

subsection \<open>Locate\<close>

text \<open>
  C4. Geolocation: when the position sensor fails (permission denied, position
  unavailable or timeout), the handler changes nothing, throws nothing and does not call
  the \<open>panTo\<close> prop, whatever that prop is. When the sensor succeeds, the handler calls the
  prop once, with the coordinate of the position, and then logs the position; with the
  \<open>panTo\<close> of \<open>App\<close> on an attached view, the view receives exactly one pan to that
  coordinate followed by \<open>setZoom(14)\<close>.
\<close>

theorem C4_locate:
  "Locate_onClick p (Inl err) w = Inr w
   \<and> Locate_onClick p (Inr pos) w =
       (case p \<lparr>lat = latitude (coords pos), lng = longitude (coords pos)\<rparr> w of
          Inl e \<Rightarrow> Inl e
        | Inr w1 \<Rightarrow> Inr (w1\<lparr>console := console w1 @ [LogPosition pos]\<rparr>))
   \<and> (mapRef w = Some m \<longrightarrow>
        Locate_onClick panTo (Inr pos) w =
          Inr (w\<lparr>mapRef :=
                   Some (m\<lparr>center := \<lparr>lat = latitude (coords pos),
                                       lng = longitude (coords pos)\<rparr>,
                           zoom := 14,
                           calls := calls m @
                             [PanTo \<lparr>lat = latitude (coords pos),
                                     lng = longitude (coords pos)\<rparr>,
                              SetZoom 14]\<rparr>),
                 console := console w @ [LogPosition pos]\<rparr>))"
  by (simp add: Locate_onClick_def console_log_def panTo_attached split: sum.splits)

theorem C4_locate_witness:
  "mapRef (onMapLoad \<lparr>center = \<lparr>lat = 37.7749, lng = - 122.4194\<rparr>, zoom = 8, calls = []\<rparr>
             init_world)
     = Some \<lparr>center = \<lparr>lat = 37.7749, lng = - 122.4194\<rparr>, zoom = 8, calls = []\<rparr>
   \<and> Locate_onClick panTo (Inr \<lparr>coords = \<lparr>latitude = 40, longitude = - 75\<rparr>\<rparr>)
        (onMapLoad \<lparr>center = \<lparr>lat = 37.7749, lng = - 122.4194\<rparr>, zoom = 8, calls = []\<rparr>
           init_world)
     = Inr \<lparr>markers = [], selected = None,
            mapRef = Some \<lparr>center = \<lparr>lat = 40, lng = - 75\<rparr>, zoom = 14,
                            calls = [PanTo \<lparr>lat = 40, lng = - 75\<rparr>, SetZoom 14]\<rparr>,
            ready = True, input_value = [], status = [], data = [], fetches = [],
            console = [LogPosition \<lparr>coords = \<lparr>latitude = 40, longitude = - 75\<rparr>\<rparr>]\<rparr>
   \<and> Locate_onClick panTo (Inl TIMEOUT)
        (onMapLoad \<lparr>center = \<lparr>lat = 37.7749, lng = - 122.4194\<rparr>, zoom = 8, calls = []\<rparr>
           init_world)
     = Inr (onMapLoad \<lparr>center = \<lparr>lat = 37.7749, lng = - 122.4194\<rparr>, zoom = 8, calls = []\<rparr>
              init_world)"
proof -
  have h: "mapRef (onMapLoad \<lparr>center = \<lparr>lat = 37.7749, lng = - 122.4194\<rparr>, zoom = 8,
                              calls = []\<rparr> init_world)
     = Some \<lparr>center = \<lparr>lat = 37.7749, lng = - 122.4194\<rparr>, zoom = 8, calls = []\<rparr>"
    by (simp add: onMapLoad_def)
  note locate = C4_locate [of panTo TIMEOUT
        "onMapLoad \<lparr>center = \<lparr>lat = 37.7749, lng = - 122.4194\<rparr>, zoom = 8, calls = []\<rparr>
           init_world"
        "\<lparr>coords = \<lparr>latitude = 40, longitude = - 75\<rparr>\<rparr>"
        "\<lparr>center = \<lparr>lat = 37.7749, lng = - 122.4194\<rparr>, zoom = 8, calls = []\<rparr>"]
  note failure = conjunct1 [OF locate]
  note success = mp [OF conjunct2 [OF conjunct2 [OF locate]] h]
  show ?thesis
    using h failure success
    by (simp add: onMapLoad_def init_world_def)
qed

subsection \<open>Search\<close>

text \<open>
  C2, as stated, fails: the text of the search box is not left unchanged when the geocoder
  rejects. \<open>setValue(address, false)\<close> runs before the \<open>try\<close>, so the box that held
  \<open>Par\<close> holds the selected description afterwards.
\<close>

theorem C2_queryText_changes:
  "input_value
     (Search_onSelect panTo (Inl (GeocoderStatus ''ZERO_RESULTS'')) ''Paris, France''
        (init_world\<lparr>input_value := ''Par''\<rparr>))
   \<noteq> input_value (init_world\<lparr>input_value := ''Par''\<rparr>)"
  by (simp add: Search_onSelect_def setValue_def clearSuggestions_def console_log_def)

text \<open>
  C2, amended. Silent failure of a selection: when the geocoder rejects, or answers with
  an empty result set, the error is caught and logged and the handler returns normally; the
  text of the search box is the selected description (set before the lookup, with no new
  suggestion fetch), the suggestions are cleared, and the \<open>panTo\<close> prop is not called:
  the resulting state is the same for every prop, and differs from the state before only
  in the text, the suggestions and the console.
\<close>

theorem C2_silent_failure:
  "Search_onSelect p (Inl e) address w =
     w\<lparr>input_value := address, status := [], data := [],
       console := console w @ [LogString ''Error!'']\<rparr>
   \<and> Search_onSelect p (Inr []) address w =
     w\<lparr>input_value := address, status := [], data := [],
       console := console w @ [LogString ''Error!'']\<rparr>"
  by (simp add: Search_onSelect_def setValue_def clearSuggestions_def console_log_def
      getLatLng_def first_result_def)

text \<open>
  C5. Successful selection: when the geocoder answers with a non-empty result list, the
  handler sets the text of the search box to the selected description without asking for
  suggestions again, clears the suggestions, and calls the \<open>panTo\<close> prop with the
  coordinate of the first result. With the \<open>panTo\<close> of \<open>App\<close> on an attached view, the
  view is panned to that coordinate and zoomed to 14.
\<close>

theorem C5_select_success:
  "Search_onSelect p (Inr (r # rs)) address w =
     (case p (location r)
             (w\<lparr>input_value := address, status := [], data := [],
                console := console w @ [LogLatLng (lat (location r)) (lng (location r))]\<rparr>) of
        Inl e \<Rightarrow>
          w\<lparr>input_value := address, status := [], data := [],
            console := console w @ [LogLatLng (lat (location r)) (lng (location r)),
                                    LogString ''Error!'']\<rparr>
      | Inr w4 \<Rightarrow> w4)
   \<and> (mapRef w = Some m \<longrightarrow>
        Search_onSelect panTo (Inr (r # rs)) address w =
          w\<lparr>input_value := address, status := [], data := [],
            console := console w @ [LogLatLng (lat (location r)) (lng (location r))],
            mapRef := Some (m\<lparr>center := location r, zoom := 14,
                               calls := calls m @ [PanTo (location r), SetZoom 14]\<rparr>)\<rparr>
        \<and> fetches (Search_onSelect panTo (Inr (r # rs)) address w) = fetches w)"
  by (simp add: Search_onSelect_def setValue_def clearSuggestions_def console_log_def
      getLatLng_def first_result_def panTo_attached Let_def LatLngLiteral_eta
      split: sum.splits)

theorem C5_select_success_witness:
  "mapRef (onMapLoad \<lparr>center = \<lparr>lat = 37.7749, lng = - 122.4194\<rparr>, zoom = 8, calls = []\<rparr>
             (init_world\<lparr>input_value := ''Par'',
                status := ''OK'',
                data := [\<lparr>place_id = ''p1'', description = ''Paris, France''\<rparr>],
                fetches := [''P'', ''Pa'', ''Par'']\<rparr>))
     = Some \<lparr>center = \<lparr>lat = 37.7749, lng = - 122.4194\<rparr>, zoom = 8, calls = []\<rparr>
   \<and> Search_onSelect panTo
        (Inr [\<lparr>formatted_address = ''Paris, France'',
                location = \<lparr>lat = 48.8566, lng = 2.3522\<rparr>\<rparr>,
              \<lparr>formatted_address = ''Paris, TX, USA'',
                location = \<lparr>lat = 33.6609, lng = - 95.5555\<rparr>\<rparr>])
        ''Paris, France''
        (onMapLoad \<lparr>center = \<lparr>lat = 37.7749, lng = - 122.4194\<rparr>, zoom = 8, calls = []\<rparr>
           (init_world\<lparr>input_value := ''Par'',
              status := ''OK'',
              data := [\<lparr>place_id = ''p1'', description = ''Paris, France''\<rparr>],
              fetches := [''P'', ''Pa'', ''Par'']\<rparr>))
     = \<lparr>markers = [], selected = None,
        mapRef = Some \<lparr>center = \<lparr>lat = 48.8566, lng = 2.3522\<rparr>, zoom = 14,
                        calls = [PanTo \<lparr>lat = 48.8566, lng = 2.3522\<rparr>, SetZoom 14]\<rparr>,
        ready = True, input_value = ''Paris, France'', status = [], data = [],
        fetches = [''P'', ''Pa'', ''Par''],
        console = [LogLatLng 48.8566 2.3522]\<rparr>"
proof -
  have h: "mapRef (onMapLoad \<lparr>center = \<lparr>lat = 37.7749, lng = - 122.4194\<rparr>, zoom = 8,
                              calls = []\<rparr>
             (init_world\<lparr>input_value := ''Par'',
                status := ''OK'',
                data := [\<lparr>place_id = ''p1'', description = ''Paris, France''\<rparr>],
                fetches := [''P'', ''Pa'', ''Par'']\<rparr>))
     = Some \<lparr>center = \<lparr>lat = 37.7749, lng = - 122.4194\<rparr>, zoom = 8, calls = []\<rparr>"
    by (simp add: onMapLoad_def)
  note select = C5_select_success [of panTo
        "\<lparr>formatted_address = ''Paris, France'',
          location = \<lparr>lat = 48.8566, lng = 2.3522\<rparr>\<rparr>"
        "[\<lparr>formatted_address = ''Paris, TX, USA'',
           location = \<lparr>lat = 33.6609, lng = - 95.5555\<rparr>\<rparr>]"
        "''Paris, France''"
        "onMapLoad \<lparr>center = \<lparr>lat = 37.7749, lng = - 122.4194\<rparr>, zoom = 8, calls = []\<rparr>
           (init_world\<lparr>input_value := ''Par'',
              status := ''OK'',
              data := [\<lparr>place_id = ''p1'', description = ''Paris, France''\<rparr>],
              fetches := [''P'', ''Pa'', ''Par'']\<rparr>)"
        "\<lparr>center = \<lparr>lat = 37.7749, lng = - 122.4194\<rparr>, zoom = 8, calls = []\<rparr>"]
  note success = conjunct1 [OF mp [OF conjunct2 [OF select] h]]
  show ?thesis
    using h success
    by (simp add: onMapLoad_def init_world_def)
qed

end
